theory Spec2Isabelle
  imports Main "HOL-Library.Word"
begin

unbundle bit_operations_syntax

section \<open>The message layer of pymodbus/transport/message.py\<close>

subsection \<open>Data\<close>

type_synonym byte = "8 word"
type_synonym bytes = "byte list"

text \<open>The optional \<open>addr\<close> tuple of the callbacks (host and port); \<open>None\<close> is the default.\<close>

type_synonym address = "string \<times> nat"

text \<open>Objects live in a store and are named by their position in it.\<close>

type_synonym ref = nat

text \<open>\<open>class CommHeaderType(Enum)\<close>, members in declaration order.\<close>

datatype CommHeaderType = SOCKET | TLS | RTU | ASCII | BINARY

text \<open>
  The five header classes. Each has one field, \<open>message\<close>, set by its \<open>__init__\<close> to the
  object handed in; the class of the instance is the constructor.
\<close>

datatype ModbusHeader =
    HeaderSocket ref
  | HeaderTLS ref
  | HeaderRTU ref
  | HeaderASCII ref
  | HeaderBinary ref

fun message :: "ModbusHeader \<Rightarrow> ref" where
  "message (HeaderSocket m) = m"
| "message (HeaderTLS m) = m"
| "message (HeaderRTU m) = m"
| "message (HeaderASCII m) = m"
| "message (HeaderBinary m) = m"

text \<open>
  The closure \<open>lambda: ModbusMessage(headerType, self.comm_params, False)\<close> of
  \<open>ModbusMessage.__init__\<close>: it captures the value of \<open>headerType\<close> and the object \<open>self\<close>;
  \<open>self.comm_params\<close> is read when the closure is called.
\<close>

datatype closure = NewConnection CommHeaderType ref

text \<open>
  \<open>CommParams\<close> is declared in pymodbus/transport/transport.py. The only attribute this
  module touches is \<open>new_connection_class\<close>; every other attribute is carried in
  \<open>settings\<close>, of a type left open.
\<close>

record 'c CommParams =
  settings :: 'c
  new_connection_class :: "closure option"

text \<open>
  The attributes of the superclass \<open>ModbusProtocol\<close> this module relies on, and the
  attribute \<open>header\<close> that \<open>ModbusMessage\<close> adds.
\<close>

record ModbusProtocol =
  comm_params :: ref
  is_server :: bool
  recv_buffer :: bytes

record ModbusMessage = ModbusProtocol +
  header :: ModbusHeader

text \<open>What leaves the module: lines handed to \<open>Log.debug\<close> and bytes handed to the transport.\<close>

datatype log_arg = ArgBytes bytes | ArgStr string | ArgAddr "address option"

datatype effect =
    LogDebug string "log_arg list"
  | TransportSend ref bytes "address option"

record 'c store =
  params_objs :: "'c CommParams list"
  message_objs :: "ModbusMessage list"
  effects :: "effect list"

text \<open>
  \<open>KeyError\<close> is what the subscript of a dictionary raises on a missing key. A Python
  name always refers to an object; a reference past the end of the store has no
  counterpart in the program and is answered with \<open>InvalidReference\<close>.
\<close>

datatype error = KeyError | InvalidReference

subsection \<open>Collaborators outside the module\<close>

definition Log_debug :: "string \<Rightarrow> log_arg list \<Rightarrow> 'c store \<Rightarrow> 'c store" where
  "Log_debug txt args s = s\<lparr>effects := effects s @ [LogDebug txt args]\<rparr>"

text \<open>
  Modelled from the spec: \<open>ModbusProtocol.transport_send\<close> (the superclass lives in
  pymodbus/transport/transport.py, outside the files modelled here). The spec gives the
  transport the interface
  \<open>send(connection, bytes)\<close>, a best-effort write: the bytes and the address are handed over
  as they are.
\<close>

definition transport_send :: "ref \<Rightarrow> bytes \<Rightarrow> address option \<Rightarrow> 'c store \<Rightarrow> 'c store" where
  "transport_send self data addr s = s\<lparr>effects := effects s @ [TransportSend self data addr]\<rparr>"

text \<open>
  Modelled from the spec: \<open>ModbusProtocol.__init__(params, is_server)\<close> (the superclass
  lives in pymodbus/transport/transport.py, outside the files modelled here). It leaves the
  instance
  with its configuration in \<open>comm_params\<close>, its role, and an empty accumulation buffer of
  its own. Whether the configuration is kept by reference or as a copy is not visible from
  this module, so that choice is the parameter \<open>copies\<close>.
\<close>

definition ModbusProtocol_init ::
  "bool \<Rightarrow> ref \<Rightarrow> bool \<Rightarrow> 'c store \<Rightarrow> ModbusProtocol \<times> 'c store" where
  "ModbusProtocol_init copies params is_srv s =
     (if copies
      then (\<lparr>comm_params = length (params_objs s), is_server = is_srv, recv_buffer = []\<rparr>,
            s\<lparr>params_objs := params_objs s @ [params_objs s ! params]\<rparr>)
      else (\<lparr>comm_params = params, is_server = is_srv, recv_buffer = []\<rparr>, s))"

subsection \<open>ModbusMessage\<close>

text \<open>The dictionary literal of \<open>__init__\<close>: one instance of every header class, each built on \<open>self\<close>.\<close>

definition header_table :: "ref \<Rightarrow> (CommHeaderType \<times> ModbusHeader) list" where
  "header_table self =
     [(SOCKET, HeaderSocket self),
      (TLS, HeaderTLS self),
      (RTU, HeaderRTU self),
      (ASCII, HeaderASCII self),
      (BINARY, HeaderBinary self)]"

text \<open>
  \<open>ModbusMessage.__init__\<close>. The new object is \<open>self\<close>; the three statements of the body
  follow in order: the assignment to \<open>params.new_connection_class\<close>, the call of the
  superclass, the subscript of the dictionary (a missing key raises \<open>KeyError\<close>).
\<close>

definition ModbusMessage_init ::
  "bool \<Rightarrow> CommHeaderType \<Rightarrow> ref \<Rightarrow> bool \<Rightarrow> 'c store \<Rightarrow> error + (ref \<times> 'c store)" where
  "ModbusMessage_init copies headerType params is_srv s =
     (if \<not> params < length (params_objs s) then Inl InvalidReference
      else
        let self = length (message_objs s);
            s1 = s\<lparr>params_objs := (params_objs s)
                   [params := (params_objs s ! params)
                      \<lparr>new_connection_class := Some (NewConnection headerType self)\<rparr>]\<rparr>;
            (base, s2) = ModbusProtocol_init copies params is_srv s1
        in case map_of (header_table self) headerType of
             None \<Rightarrow> Inl KeyError
           | Some hdr \<Rightarrow>
               Inr (self,
                    s2\<lparr>message_objs := message_objs s2 @
                         [\<lparr>comm_params = comm_params base, is_server = is_server base,
                           recv_buffer = recv_buffer base, header = hdr\<rparr>]\<rparr>))"

text \<open>Calling the closure stored in \<open>new_connection_class\<close>.\<close>

fun call_closure :: "bool \<Rightarrow> closure \<Rightarrow> 'c store \<Rightarrow> error + (ref \<times> 'c store)" where
  "call_closure copies (NewConnection headerType self) s =
     (if self < length (message_objs s)
      then ModbusMessage_init copies headerType (comm_params (message_objs s ! self)) False s
      else Inl InvalidReference)"

text \<open>\<open>callback_data\<close>: one debug line, then \<open>return 0\<close>.\<close>

definition callback_data :: "ref \<Rightarrow> bytes \<Rightarrow> address option \<Rightarrow> 'c store \<Rightarrow> int \<times> 'c store" where
  "callback_data self data addr s =
     (0, Log_debug ''callback_data called: {} addr={}''
           [ArgBytes data, ArgStr '':hex'', ArgAddr addr] s)"

text \<open>\<open>message_send\<close>: one debug line, then \<open>self.transport_send(data, addr=addr)\<close>.\<close>

definition message_send :: "ref \<Rightarrow> bytes \<Rightarrow> address option \<Rightarrow> 'c store \<Rightarrow> 'c store" where
  "message_send self data addr s =
     transport_send self data addr
       (Log_debug ''send: {}'' [ArgBytes data, ArgStr '':hex''] s)"

text \<open>A sequence of calls on one instance, for statements about its whole lifetime.\<close>

datatype operation =
    CallbackData bytes "address option"
  | MessageSend bytes "address option"

fun perform :: "ref \<Rightarrow> operation \<Rightarrow> 'c store \<Rightarrow> 'c store" where
  "perform self (CallbackData data addr) s = snd (callback_data self data addr s)"
| "perform self (MessageSend data addr) s = message_send self data addr s"

fun perform_all :: "ref \<Rightarrow> operation list \<Rightarrow> 'c store \<Rightarrow> 'c store" where
  "perform_all self [] s = s"
| "perform_all self (x # xs) s = perform_all self xs (perform self x s)"

text \<open>
  The closure is called once per accepted connection; \<open>call_times\<close> calls one closure \<open>n\<close>
  times in a row and collects the instances it returns.
\<close>

fun call_times :: "bool \<Rightarrow> closure \<Rightarrow> nat \<Rightarrow> 'c store \<Rightarrow> error + (ref list \<times> 'c store)" where
  "call_times copies f 0 s = Inr ([], s)"
| "call_times copies f (Suc n) s =
     (case call_closure copies f s of
        Inl e \<Rightarrow> Inl e
      | Inr (c, s') \<Rightarrow>
          (case call_times copies f n s' of
             Inl e \<Rightarrow> Inl e
           | Inr (cs, s'') \<Rightarrow> Inr (c # cs, s'')))"

section \<open>The parts the module only announces\<close>

text \<open>
  The class docstring of \<open>ModbusMessage\<close> announces framing, validation and decoding, and
  the header classes are empty. The checksum, the outcome of a decode attempt and the
  assembler's loop are therefore taken from the specification of the layer.
\<close>

subsection \<open>Checksum\<close>

text \<open>
  Modelled from the spec: the checksum utility \<open>lrc(bytes) -> u8\<close> (the module has no
  checksum code): "two's-complement of the sum of all bytes modulo 256". The sum of
  the bytes is taken as a number, reduced modulo 256, and complemented as an 8-bit value
  (all bits inverted, plus one).
\<close>

definition lrc :: "bytes \<Rightarrow> byte" where
  "lrc bs = NOT (word_of_nat (sum_list (map unat bs) mod 256)) + 1"

subsection \<open>Messages and decode outcomes\<close>

text \<open>
  Modelled from the spec: the data model of section 3 (the module declares none of it).
  A \<open>Message\<close> has a unit id, a function code, the data bytes and an optional
  transaction id.
\<close>

record Message =
  unit_id :: byte
  function_code :: byte
  data :: bytes
  transaction_id :: "nat option"

text \<open>Modelled from the spec: the error taxonomy of section 7.\<close>

datatype reason = ChecksumError | FramingError | FatalFramingError | OversizedFrame

text \<open>
  Modelled from the spec: \<open>DecodeOutcome\<close>, the tagged result of \<open>try_decode\<close>:
  \<open>Complete{message, bytes_consumed}\<close>, \<open>Incomplete\<close>, \<open>Invalid{reason}\<close>.
\<close>

datatype DecodeOutcome = Complete Message nat | Incomplete | Invalid reason

text \<open>
  Modelled from the spec: what a delivery leaves the connection in. After an \<open>Invalid\<close>
  outcome that the encoding cannot resynchronize on, the connection must close.
\<close>

datatype connection = Open | MustClose reason

subsection \<open>Frame Assembler\<close>

text \<open>
  Modelled from the spec: the loop of the Frame Assembler (section 4.3; the module has no
  assembler). The codec is a parameter: \<open>try_decode\<close>, and its resynchronization
  rule \<open>resync\<close>, which names the point up to and including which the leading bytes are
  dropped, or names none where the failure is fatal. On \<open>Complete\<close> the message is emitted,
  the consumed prefix removed, and the loop goes on; on \<open>Incomplete\<close> the loop stops and
  keeps the buffer; on \<open>Invalid\<close> the rule is applied. A loop that never stops has the
  value \<open>None\<close>.
\<close>

partial_function (option) feed_loop ::
  "(bytes \<Rightarrow> DecodeOutcome) \<Rightarrow> (bytes \<Rightarrow> nat option) \<Rightarrow> bytes \<Rightarrow> Message list \<Rightarrow>
     (Message list \<times> bytes \<times> connection) option" where
  "feed_loop try_decode resync buffer emitted =
     (case try_decode buffer of
        Complete m bytes_consumed \<Rightarrow>
          feed_loop try_decode resync (drop bytes_consumed buffer) (emitted @ [m])
      | Incomplete \<Rightarrow> Some (emitted, buffer, Open)
      | Invalid r \<Rightarrow>
          (case resync buffer of
             None \<Rightarrow> Some (emitted, buffer, MustClose r)
           | Some point \<Rightarrow> feed_loop try_decode resync (drop (Suc point) buffer) emitted))"

declare feed_loop.simps [code]

text \<open>Modelled from the spec: \<open>feed(new_bytes)\<close>: "append to buffer, then loop".\<close>

definition feed ::
  "(bytes \<Rightarrow> DecodeOutcome) \<Rightarrow> (bytes \<Rightarrow> nat option) \<Rightarrow> bytes \<Rightarrow> bytes \<Rightarrow>
     (Message list \<times> bytes \<times> connection) option" where
  "feed try_decode resync buffer new_bytes = feed_loop try_decode resync (buffer @ new_bytes) []"

subsection \<open>The ASCII encoding\<close>

text \<open>
  Modelled from the spec: the ASCII row of the codec table (section 4.2; the class
  \<open>HeaderASCII\<close> of the module is empty). A frame is \<open>:\<close>, then pairs of hex digits for
  unit id, function code, payload and LRC, then CR LF. \<open>index_of\<close> is the scan for a
  delimiter byte (58 is \<open>:\<close>).
\<close>

fun index_of :: "byte \<Rightarrow> bytes \<Rightarrow> nat option" where
  "index_of c [] = None"
| "index_of c (b # bs) = (if b = c then Some 0 else map_option Suc (index_of c bs))"

text \<open>Modelled from the spec: the scan for the end delimiter, CR (13) followed by LF (10).\<close>

fun index_of_crlf :: "bytes \<Rightarrow> nat option" where
  "index_of_crlf (a # b # bs) =
     (if a = 13 \<and> b = 10 then Some 0 else map_option Suc (index_of_crlf (b # bs)))"
| "index_of_crlf bs = None"

text \<open>Modelled from the spec: one hex digit (\<open>0-9\<close>, \<open>A-F\<close>, \<open>a-f\<close>) and its value.\<close>

definition hex_value :: "byte \<Rightarrow> nat option" where
  "hex_value b =
     (let n = unat b
      in if 48 \<le> n \<and> n \<le> 57 then Some (n - 48)
         else if 65 \<le> n \<and> n \<le> 70 then Some (n - 55)
         else if 97 \<le> n \<and> n \<le> 102 then Some (n - 87)
         else None)"

text \<open>
  Modelled from the spec: "Hex-decode body; odd hex-digit count or non-hex character"
  is a failure.
\<close>

fun hex_decode :: "bytes \<Rightarrow> bytes option" where
  "hex_decode [] = Some []"
| "hex_decode [a] = None"
| "hex_decode (a # b # bs) =
     (case (hex_value a, hex_value b, hex_decode bs) of
        (Some h, Some l, Some rest) \<Rightarrow> Some (word_of_nat (16 * h + l) # rest)
      | _ \<Rightarrow> None)"

text \<open>
  Modelled from the spec: \<open>try_decode\<close> of the ASCII encoding. "Scan forward for \<open>:\<close>;
  discard any bytes before it; buffer until CR LF found. Hex-decode body; lrc over
  (unit-id, function-code, payload) must equal transmitted LRC byte". A body too short
  for unit id, function code and LRC is malformed.
\<close>

definition ascii_try_decode :: "bytes \<Rightarrow> DecodeOutcome" where
  "ascii_try_decode buffer =
     (case index_of 58 buffer of
        None \<Rightarrow> Incomplete
      | Some start \<Rightarrow>
          (case index_of_crlf (drop (Suc start) buffer) of
             None \<Rightarrow> Incomplete
           | Some n \<Rightarrow>
               (case hex_decode (take n (drop (Suc start) buffer)) of
                  None \<Rightarrow> Invalid FramingError
                | Some body \<Rightarrow>
                    if length body < 3 then Invalid FramingError
                    else if lrc (butlast body) \<noteq> last body then Invalid ChecksumError
                    else Complete
                           \<lparr>unit_id = body ! 0, function_code = body ! 1,
                            data = butlast (drop 2 body), transaction_id = None\<rparr>
                           (Suc start + n + 2))))"

text \<open>
  Modelled from the spec: the resynchronization rule of the ASCII encoding, "discard up to
  the next start delimiter": the point is the byte before the next \<open>:\<close> after the rejected
  frame's own, or the last byte of the buffer when there is none.
\<close>

definition ascii_resync :: "bytes \<Rightarrow> nat option" where
  "ascii_resync buffer =
     (case index_of 58 buffer of
        None \<Rightarrow> Some (length buffer - 1)
      | Some start \<Rightarrow>
          (case index_of 58 (drop (Suc start) buffer) of
             None \<Rightarrow> Some (length buffer - 1)
           | Some k \<Rightarrow> Some (start + k)))"

section \<open>Example data\<close>

text \<open>A store holding one \<open>CommParams\<close> object and no instance yet.\<close>

definition example_store :: "string store" where
  "example_store =
     \<lparr>params_objs = [\<lparr>settings = ''tcp'', new_connection_class = None\<rparr>],
      message_objs = [], effects = []\<rparr>"

text \<open>
  The frame \<open>:010300000002FA\<close> CR LF of the specification's third scenario, and the same
  frame with one hex digit of the body changed.
\<close>

definition ascii_frame :: bytes where
  "ascii_frame = [58, 48, 49, 48, 51, 48, 48, 48, 48, 48, 48, 48, 50, 70, 65, 13, 10]"

definition ascii_frame_corrupted :: bytes where
  "ascii_frame_corrupted = [58, 48, 49, 48, 51, 48, 48, 48, 48, 48, 48, 48, 51, 70, 65, 13, 10]"

section \<open>Construction\<close>

lemma header_table_lookup:
  "map_of (header_table self) t =
     Some (case t of SOCKET \<Rightarrow> HeaderSocket self | TLS \<Rightarrow> HeaderTLS self
     | RTU \<Rightarrow> HeaderRTU self | ASCII \<Rightarrow> HeaderASCII self | BINARY \<Rightarrow> HeaderBinary self)"
  by (cases t) (simp_all add: header_table_def)

lemma ModbusMessage_init_eq:
  assumes "params < length (params_objs s)"
  shows "ModbusMessage_init copies t params srv s =
     Inr (length (message_objs s),
          s\<lparr>params_objs :=
               (let ps = (params_objs s)[params := (params_objs s ! params)
                           \<lparr>new_connection_class := Some (NewConnection t (length (message_objs s)))\<rparr>]
                in if copies then ps @ [ps ! params] else ps),
            message_objs := message_objs s @
               [\<lparr>comm_params = (if copies then length (params_objs s) else params),
                 is_server = srv, recv_buffer = [],
                 header = (case t of SOCKET \<Rightarrow> HeaderSocket (length (message_objs s)) | TLS \<Rightarrow> HeaderTLS (length (message_objs s))
     | RTU \<Rightarrow> HeaderRTU (length (message_objs s)) | ASCII \<Rightarrow> HeaderASCII (length (message_objs s)) | BINARY \<Rightarrow> HeaderBinary (length (message_objs s)))\<rparr>]\<rparr>)"
  using assms
  by (simp add: ModbusMessage_init_def ModbusProtocol_init_def header_table_lookup Let_def)

lemma perform_all_objs:
  "message_objs (perform_all self ops s) = message_objs s \<and>
   params_objs (perform_all self ops s) = params_objs s"
proof (induction ops arbitrary: s)
  case Nil
  show ?case by simp
next
  case (Cons x xs)
  have "message_objs (perform self x s) = message_objs s \<and>
        params_objs (perform self x s) = params_objs s"
    by (cases x) (simp_all add: callback_data_def message_send_def transport_send_def Log_debug_def)
  with Cons.IH [of "perform self x s"] show ?case by simp
qed

lemma call_closure_step:
  assumes "p < length (message_objs t)"
    and "comm_params (message_objs t ! p) < length (params_objs t)"
  shows "\<exists>t' child.
      call_closure copies (NewConnection ht p) t = Inr (length (message_objs t), t') \<and>
      message_objs t' = message_objs t @ [child] \<and>
      header child =
        (case ht of SOCKET \<Rightarrow> HeaderSocket (length (message_objs t))
         | TLS \<Rightarrow> HeaderTLS (length (message_objs t))
         | RTU \<Rightarrow> HeaderRTU (length (message_objs t))
         | ASCII \<Rightarrow> HeaderASCII (length (message_objs t))
         | BINARY \<Rightarrow> HeaderBinary (length (message_objs t))) \<and>
      \<not> is_server child \<and> recv_buffer child = [] \<and>
      comm_params child < length (params_objs t') \<and>
      settings (params_objs t' ! comm_params child) =
        settings (params_objs t ! comm_params (message_objs t ! p)) \<and>
      length (params_objs t) \<le> length (params_objs t') \<and>
      (\<forall>i<length (params_objs t). settings (params_objs t' ! i) = settings (params_objs t ! i)) \<and>
      effects t' = effects t"
  using assms
  by (cases copies) (simp_all add: ModbusMessage_init_eq Let_def nth_append nth_list_update)

lemma call_times_general:
  assumes "p < length (message_objs t)"
    and "comm_params (message_objs t ! p) < length (params_objs t)"
  shows "\<exists>tn.
      call_times copies (NewConnection ht p) n t =
        Inr ([length (message_objs t) ..< length (message_objs t) + n], tn) \<and>
      length (message_objs tn) = length (message_objs t) + n \<and>
      take (length (message_objs t)) (message_objs tn) = message_objs t \<and>
      length (params_objs t) \<le> length (params_objs tn) \<and>
      (\<forall>i<length (params_objs t). settings (params_objs tn ! i) = settings (params_objs t ! i)) \<and>
      (\<forall>c. length (message_objs t) \<le> c \<and> c < length (message_objs t) + n \<longrightarrow>
         header (message_objs tn ! c) =
           (case ht of SOCKET \<Rightarrow> HeaderSocket c | TLS \<Rightarrow> HeaderTLS c | RTU \<Rightarrow> HeaderRTU c
            | ASCII \<Rightarrow> HeaderASCII c | BINARY \<Rightarrow> HeaderBinary c) \<and>
         \<not> is_server (message_objs tn ! c) \<and>
         recv_buffer (message_objs tn ! c) = [] \<and>
         comm_params (message_objs tn ! c) < length (params_objs tn) \<and>
         settings (params_objs tn ! comm_params (message_objs tn ! c)) =
           settings (params_objs t ! comm_params (message_objs t ! p)))"
  using assms
proof (induction n arbitrary: t)
  case 0
  then show ?case by auto
next
  case (Suc n)
  let ?k = "length (message_objs t)"
  let ?cfg = "settings (params_objs t ! comm_params (message_objs t ! p))"
  from call_closure_step [OF Suc.prems, of copies ht]
  obtain t' child where
    call: "call_closure copies (NewConnection ht p) t = Inr (?k, t')"
    and objs: "message_objs t' = message_objs t @ [child]"
    and hdr: "header child =
        (case ht of SOCKET \<Rightarrow> HeaderSocket ?k | TLS \<Rightarrow> HeaderTLS ?k | RTU \<Rightarrow> HeaderRTU ?k
         | ASCII \<Rightarrow> HeaderASCII ?k | BINARY \<Rightarrow> HeaderBinary ?k)"
    and role: "\<not> is_server child" and buf: "recv_buffer child = []"
    and cp: "comm_params child < length (params_objs t')"
    and cfg: "settings (params_objs t' ! comm_params child) = ?cfg"
    and grow: "length (params_objs t) \<le> length (params_objs t')"
    and keep: "\<forall>i<length (params_objs t). settings (params_objs t' ! i) = settings (params_objs t ! i)"
    by blast
  have p': "p < length (message_objs t')" using Suc.prems(1) objs by simp
  have same_p: "message_objs t' ! p = message_objs t ! p"
    using Suc.prems(1) objs by (simp add: nth_append)
  have cp': "comm_params (message_objs t' ! p) < length (params_objs t')"
    using Suc.prems(2) grow same_p by simp
  have cfg_p: "settings (params_objs t' ! comm_params (message_objs t' ! p)) = ?cfg"
    using keep Suc.prems(2) same_p by simp
  have len': "length (message_objs t') = Suc ?k" using objs by simp
  from Suc.IH [OF p' cp']
  obtain tn where
    rest: "call_times copies (NewConnection ht p) n t' =
             Inr ([length (message_objs t') ..< length (message_objs t') + n], tn)"
    and lenn: "length (message_objs tn) = length (message_objs t') + n"
    and pre: "take (length (message_objs t')) (message_objs tn) = message_objs t'"
    and grown: "length (params_objs t') \<le> length (params_objs tn)"
    and keepn: "\<forall>i<length (params_objs t'). settings (params_objs tn ! i) = settings (params_objs t' ! i)"
    and kids: "\<forall>c. length (message_objs t') \<le> c \<and> c < length (message_objs t') + n \<longrightarrow>
         header (message_objs tn ! c) =
           (case ht of SOCKET \<Rightarrow> HeaderSocket c | TLS \<Rightarrow> HeaderTLS c | RTU \<Rightarrow> HeaderRTU c
            | ASCII \<Rightarrow> HeaderASCII c | BINARY \<Rightarrow> HeaderBinary c) \<and>
         \<not> is_server (message_objs tn ! c) \<and>
         recv_buffer (message_objs tn ! c) = [] \<and>
         comm_params (message_objs tn ! c) < length (params_objs tn) \<and>
         settings (params_objs tn ! comm_params (message_objs tn ! c)) =
           settings (params_objs t' ! comm_params (message_objs t' ! p))"
    by blast
  have first: "message_objs tn ! ?k = child"
  proof -
    have "message_objs tn ! ?k = take (length (message_objs t')) (message_objs tn) ! ?k"
      using len' by simp
    also have "\<dots> = child" using pre objs by simp
    finally show ?thesis .
  qed
  have run: "call_times copies (NewConnection ht p) (Suc n) t = Inr ([?k ..< ?k + Suc n], tn)"
    using call rest len' by (simp add: upt_conv_Cons)
  have pre0: "take ?k (message_objs tn) = message_objs t"
  proof -
    have "take ?k (message_objs tn) = take ?k (take (length (message_objs t')) (message_objs tn))"
      using len' by (simp add: min_def)
    also have "\<dots> = message_objs t" using pre objs by simp
    finally show ?thesis .
  qed
  have keep0: "\<forall>i<length (params_objs t). settings (params_objs tn ! i) = settings (params_objs t ! i)"
    using keep keepn grow by auto
  have kids0: "\<forall>c. ?k \<le> c \<and> c < ?k + Suc n \<longrightarrow>
         header (message_objs tn ! c) =
           (case ht of SOCKET \<Rightarrow> HeaderSocket c | TLS \<Rightarrow> HeaderTLS c | RTU \<Rightarrow> HeaderRTU c
            | ASCII \<Rightarrow> HeaderASCII c | BINARY \<Rightarrow> HeaderBinary c) \<and>
         \<not> is_server (message_objs tn ! c) \<and>
         recv_buffer (message_objs tn ! c) = [] \<and>
         comm_params (message_objs tn ! c) < length (params_objs tn) \<and>
         settings (params_objs tn ! comm_params (message_objs tn ! c)) = ?cfg"
  proof (intro allI impI)
    fix c assume c: "?k \<le> c \<and> c < ?k + Suc n"
    show "header (message_objs tn ! c) =
           (case ht of SOCKET \<Rightarrow> HeaderSocket c | TLS \<Rightarrow> HeaderTLS c | RTU \<Rightarrow> HeaderRTU c
            | ASCII \<Rightarrow> HeaderASCII c | BINARY \<Rightarrow> HeaderBinary c) \<and>
         \<not> is_server (message_objs tn ! c) \<and>
         recv_buffer (message_objs tn ! c) = [] \<and>
         comm_params (message_objs tn ! c) < length (params_objs tn) \<and>
         settings (params_objs tn ! comm_params (message_objs tn ! c)) = ?cfg"
    proof (cases "c = ?k")
      case True
      have "settings (params_objs tn ! comm_params child) = ?cfg"
        using keepn cp cfg by simp
      then show ?thesis
        using True first hdr role buf cp grown by (cases ht) simp_all
    next
      case False
      then have "length (message_objs t') \<le> c \<and> c < length (message_objs t') + n"
        using c len' by simp
      with kids cfg_p show ?thesis by simp
    qed
  qed
  show ?case
    using run lenn len' pre0 grow grown keep0 kids0 by simp
qed

section \<open>Receiving and sending\<close>

text \<open>
  C1. The receive path would hand the delivered bytes to the Frame Assembler and call the
  application once for every complete, validated frame. The code does not: on an instance
  built for the ASCII encoding, \<open>callback_data\<close> given the valid frame of the third scenario
  writes its debug line and returns 0; no object changes and nothing is delivered. The
  assembler of the specification, fed the same bytes, emits the one message of that frame.
\<close>

theorem callback_data_ignores_valid_frame:
  "(case ModbusMessage_init True ASCII 0 False example_store of
      Inl e \<Rightarrow> False
    | Inr (self, s) \<Rightarrow>
        fst (callback_data self ascii_frame None s) = 0 \<and>
        effects (snd (callback_data self ascii_frame None s)) =
          [LogDebug ''callback_data called: {} addr={}''
             [ArgBytes ascii_frame, ArgStr '':hex'', ArgAddr None]] \<and>
        message_objs (snd (callback_data self ascii_frame None s)) = message_objs s) \<and>
   feed ascii_try_decode ascii_resync [] ascii_frame =
     Some ([\<lparr>unit_id = 1, function_code = 3, data = [0, 0, 0, 2], transaction_id = None\<rparr>],
           [], Open)"
proof -
  have code: "case ModbusMessage_init True ASCII 0 False example_store of
      Inl e \<Rightarrow> False
    | Inr (self, s) \<Rightarrow>
        fst (callback_data self ascii_frame None s) = 0 \<and>
        effects (snd (callback_data self ascii_frame None s)) =
          [LogDebug ''callback_data called: {} addr={}''
             [ArgBytes ascii_frame, ArgStr '':hex'', ArgAddr None]] \<and>
        message_objs (snd (callback_data self ascii_frame None s)) = message_objs s"
    by (simp add: example_store_def ModbusMessage_init_eq callback_data_def Log_debug_def)
  have spec: "feed ascii_try_decode ascii_resync [] ascii_frame =
     Some ([\<lparr>unit_id = 1, function_code = 3, data = [0, 0, 0, 2], transaction_id = None\<rparr>],
           [], Open)"
    by (simp add: feed_def feed_loop.simps ascii_try_decode_def ascii_frame_def
        hex_value_def lrc_def Let_def)
  from code spec show ?thesis by (rule conjI)
qed

text \<open>
  C2. Sending would encode the message with the header codec of the instance and hand the
  encoded bytes to the transport. The code does not: on an instance built for the ASCII
  encoding, \<open>message_send\<close> given unit id 1, function code 3 and data 00 00 00 02 writes its
  debug line and hands exactly these six bytes to the transport, not the frame
  \<open>:010300000002FA\<close> CR LF.
\<close>

theorem message_send_forwards_input_unencoded:
  "case ModbusMessage_init True ASCII 0 False example_store of
     Inl e \<Rightarrow> False
   | Inr (self, s) \<Rightarrow>
       effects (message_send self [1, 3, 0, 0, 0, 2] None s) =
         [LogDebug ''send: {}'' [ArgBytes [1, 3, 0, 0, 0, 2], ArgStr '':hex''],
          TransportSend self [1, 3, 0, 0, 0, 2] None] \<and>
       [1, 3, 0, 0, 0, 2] \<noteq> ascii_frame"
  by (simp add: example_store_def ModbusMessage_init_eq message_send_def transport_send_def
      Log_debug_def ascii_frame_def)

section \<open>The connection factory\<close>

text \<open>
  C4. An instance built in server role holds a connection factory: the closure stored in
  \<open>new_connection_class\<close> of its \<open>comm_params\<close>. Called any number of times, the closure
  returns each time a new instance: an object the store did not hold before (so neither
  the parent nor an earlier child), with a header of the parent's class bound to the new
  instance, with the settings of the parent's configuration, and with an empty buffer of
  its own; every object that existed before is left as it was. (The closure hands the
  parent's own configuration object to the child's \<open>__init__\<close>, whose first statement
  assigns to its \<open>new_connection_class\<close>; the settings are what stays the same.)
\<close>

theorem factory_spawns_independent_instances:
  assumes "params < length (params_objs s)"
  shows "case ModbusMessage_init copies headerType params True s of
           Inl e \<Rightarrow> False
         | Inr (parent, s1) \<Rightarrow>
             is_server (message_objs s1 ! parent) \<and>
             new_connection_class (params_objs s1 ! comm_params (message_objs s1 ! parent)) =
               Some (NewConnection headerType parent) \<and>
             header (message_objs s1 ! parent) =
               (case headerType of SOCKET \<Rightarrow> HeaderSocket parent | TLS \<Rightarrow> HeaderTLS parent
                | RTU \<Rightarrow> HeaderRTU parent | ASCII \<Rightarrow> HeaderASCII parent
                | BINARY \<Rightarrow> HeaderBinary parent) \<and>
             (\<forall>n. case call_times copies (NewConnection headerType parent) n s1 of
                    Inl e \<Rightarrow> False
                  | Inr (cs, sn) \<Rightarrow>
                      length cs = n \<and> distinct cs \<and>
                      take (length (message_objs s1)) (message_objs sn) = message_objs s1 \<and>
                      (\<forall>c\<in>set cs.
                         length (message_objs s1) \<le> c \<and> c < length (message_objs sn) \<and>
                         header (message_objs sn ! c) =
                           (case headerType of SOCKET \<Rightarrow> HeaderSocket c | TLS \<Rightarrow> HeaderTLS c
                            | RTU \<Rightarrow> HeaderRTU c | ASCII \<Rightarrow> HeaderASCII c
                            | BINARY \<Rightarrow> HeaderBinary c) \<and>
                         comm_params (message_objs sn ! c) < length (params_objs sn) \<and>
                         settings (params_objs sn ! comm_params (message_objs sn ! c)) =
                           settings (params_objs sn ! comm_params (message_objs sn ! parent)) \<and>
                         settings (params_objs sn ! comm_params (message_objs sn ! c)) =
                           settings (params_objs s ! params) \<and>
                         recv_buffer (message_objs sn ! c) = []))"
proof -
  obtain s1 where init: "ModbusMessage_init copies headerType params True s =
      Inr (length (message_objs s), s1)"
    using ModbusMessage_init_eq [OF assms] by blast
  let ?p = "length (message_objs s)"
  have s1: "s1 = s\<lparr>params_objs :=
               (let ps = (params_objs s)[params := (params_objs s ! params)
                           \<lparr>new_connection_class := Some (NewConnection headerType ?p)\<rparr>]
                in if copies then ps @ [ps ! params] else ps),
            message_objs := message_objs s @
               [\<lparr>comm_params = (if copies then length (params_objs s) else params),
                 is_server = True, recv_buffer = [],
                 header = (case headerType of SOCKET \<Rightarrow> HeaderSocket ?p | TLS \<Rightarrow> HeaderTLS ?p
                   | RTU \<Rightarrow> HeaderRTU ?p | ASCII \<Rightarrow> HeaderASCII ?p | BINARY \<Rightarrow> HeaderBinary ?p)\<rparr>]\<rparr>"
    using init ModbusMessage_init_eq [OF assms, of copies headerType True] by simp
  have p1: "?p < length (message_objs s1)" by (simp add: s1)
  have cp1: "comm_params (message_objs s1 ! ?p) < length (params_objs s1)"
    using assms by (simp add: s1 Let_def)
  have srv: "is_server (message_objs s1 ! ?p)" by (simp add: s1)
  have ncc: "new_connection_class (params_objs s1 ! comm_params (message_objs s1 ! ?p)) =
               Some (NewConnection headerType ?p)"
    using assms by (simp add: s1 Let_def nth_append)
  have hdr: "header (message_objs s1 ! ?p) =
               (case headerType of SOCKET \<Rightarrow> HeaderSocket ?p | TLS \<Rightarrow> HeaderTLS ?p
                | RTU \<Rightarrow> HeaderRTU ?p | ASCII \<Rightarrow> HeaderASCII ?p | BINARY \<Rightarrow> HeaderBinary ?p)"
    by (simp add: s1)
  have cfg1: "settings (params_objs s1 ! comm_params (message_objs s1 ! ?p)) =
                settings (params_objs s ! params)"
    using assms by (simp add: s1 Let_def nth_append)
  have len1: "length (message_objs s1) = Suc ?p" by (simp add: s1)
  have spawn: "case call_times copies (NewConnection headerType ?p) n s1 of
                    Inl e \<Rightarrow> False
                  | Inr (cs, sn) \<Rightarrow>
                      length cs = n \<and> distinct cs \<and>
                      take (length (message_objs s1)) (message_objs sn) = message_objs s1 \<and>
                      (\<forall>c\<in>set cs.
                         length (message_objs s1) \<le> c \<and> c < length (message_objs sn) \<and>
                         header (message_objs sn ! c) =
                           (case headerType of SOCKET \<Rightarrow> HeaderSocket c | TLS \<Rightarrow> HeaderTLS c
                            | RTU \<Rightarrow> HeaderRTU c | ASCII \<Rightarrow> HeaderASCII c
                            | BINARY \<Rightarrow> HeaderBinary c) \<and>
                         comm_params (message_objs sn ! c) < length (params_objs sn) \<and>
                         settings (params_objs sn ! comm_params (message_objs sn ! c)) =
                           settings (params_objs sn ! comm_params (message_objs sn ! ?p)) \<and>
                         settings (params_objs sn ! comm_params (message_objs sn ! c)) =
                           settings (params_objs s ! params) \<and>
                         recv_buffer (message_objs sn ! c) = [])" for n
  proof -
    from call_times_general [OF p1 cp1, of copies headerType n]
    obtain sn where
      run: "call_times copies (NewConnection headerType ?p) n s1 =
              Inr ([length (message_objs s1) ..< length (message_objs s1) + n], sn)"
      and lenn: "length (message_objs sn) = length (message_objs s1) + n"
      and pre: "take (length (message_objs s1)) (message_objs sn) = message_objs s1"
      and keep: "\<forall>i<length (params_objs s1). settings (params_objs sn ! i) = settings (params_objs s1 ! i)"
      and kids: "\<forall>c. length (message_objs s1) \<le> c \<and> c < length (message_objs s1) + n \<longrightarrow>
         header (message_objs sn ! c) =
           (case headerType of SOCKET \<Rightarrow> HeaderSocket c | TLS \<Rightarrow> HeaderTLS c | RTU \<Rightarrow> HeaderRTU c
            | ASCII \<Rightarrow> HeaderASCII c | BINARY \<Rightarrow> HeaderBinary c) \<and>
         \<not> is_server (message_objs sn ! c) \<and>
         recv_buffer (message_objs sn ! c) = [] \<and>
         comm_params (message_objs sn ! c) < length (params_objs sn) \<and>
         settings (params_objs sn ! comm_params (message_objs sn ! c)) =
           settings (params_objs s1 ! comm_params (message_objs s1 ! ?p))"
      by blast
    have same_p: "message_objs sn ! ?p = message_objs s1 ! ?p"
    proof -
      have "message_objs sn ! ?p = take (length (message_objs s1)) (message_objs sn) ! ?p"
        using len1 by simp
      then show ?thesis using pre by simp
    qed
    have cfg_p: "settings (params_objs sn ! comm_params (message_objs sn ! ?p)) =
                   settings (params_objs s ! params)"
      using keep cp1 cfg1 same_p by simp
    show ?thesis
      using run lenn pre kids cfg_p cfg1 by simp
  qed
  show ?thesis
    using init srv ncc hdr spawn by simp
qed

theorem factory_spawns_independent_instances_witness:
  "0 < length (params_objs example_store) \<and>
   (case ModbusMessage_init True SOCKET 0 True example_store of
      Inl e \<Rightarrow> False
    | Inr (parent, s1) \<Rightarrow>
        parent = 0 \<and>
        (case call_times True (NewConnection SOCKET parent) (Suc (Suc 0)) s1 of
           Inl e \<Rightarrow> False
         | Inr (cs, sn) \<Rightarrow>
             cs = [1, 2] \<and>
             map header (message_objs sn) = [HeaderSocket 0, HeaderSocket 1, HeaderSocket 2] \<and>
             map recv_buffer (message_objs sn) = [[], [], []] \<and>
             map settings (params_objs sn) = [''tcp'', ''tcp'', ''tcp'', ''tcp'']))"
  using factory_spawns_independent_instances
          [where params = 0 and s = example_store and copies = True and headerType = SOCKET]
  by (simp add: example_store_def ModbusMessage_init_eq Let_def)

section \<open>The header of an instance\<close>

text \<open>
  C5. The header chosen at construction is never changed by \<open>callback_data\<close> or
  \<open>message_send\<close>: after any sequence of these calls on the instance its \<open>header\<close> is the
  one construction left, and so is the header of every other instance.
\<close>

theorem header_never_changes:
  assumes "params < length (params_objs s)"
  shows "case ModbusMessage_init copies headerType params is_srv s of
           Inl e \<Rightarrow> False
         | Inr (self, s') \<Rightarrow>
             header (message_objs (perform_all self ops s') ! self) =
               header (message_objs s' ! self) \<and>
             map header (message_objs (perform_all self ops s')) = map header (message_objs s')"
  using assms by (simp add: ModbusMessage_init_eq perform_all_objs)

theorem header_never_changes_witness:
  "0 < length (params_objs example_store) \<and>
   (case ModbusMessage_init True RTU 0 False example_store of
      Inl e \<Rightarrow> False
    | Inr (self, s') \<Rightarrow>
        header (message_objs
          (perform_all self [CallbackData [1, 3] None, MessageSend [1, 3, 0] None] s') ! self) =
        HeaderRTU 0)"
  using header_never_changes [where params = 0 and s = example_store and copies = True
          and headerType = RTU and is_srv = False
          and ops = "[CallbackData [1, 3] None, MessageSend [1, 3, 0] None]"]
  by (simp add: example_store_def ModbusMessage_init_eq split: sum.splits prod.splits)

text \<open>
  C6. For every byte sequence and every address, \<open>callback_data\<close> returns 0. Nothing is
  consumed and no message is produced: the one thing the call leaves behind is its debug
  line, and every object of the store is as it was.
\<close>

theorem callback_data_returns_zero:
  "fst (callback_data self received addr s) = 0 \<and>
   snd (callback_data self received addr s) =
     s\<lparr>effects := effects s @
         [LogDebug ''callback_data called: {} addr={}''
            [ArgBytes received, ArgStr '':hex'', ArgAddr addr]]\<rparr> \<and>
   message_objs (snd (callback_data self received addr s)) = message_objs s \<and>
   params_objs (snd (callback_data self received addr s)) = params_objs s"
  by (simp add: callback_data_def Log_debug_def)

text \<open>
  C7. \<open>__init__\<close> overwrites \<open>new_connection_class\<close> of the \<open>params\<close> object it is given
  with the closure over the new instance, whatever the attribute held, and touches no
  other attribute and no other \<open>CommParams\<close> object. The superclass is called after the
  assignment: the configuration it keeps for the instance already carries the closure.
  Every instance the closure returns has \<open>is_server = False\<close>, whatever the role of the
  instance that was constructed.
\<close>

theorem init_overwrites_factory_client_children:
  assumes "params < length (params_objs s)"
  shows "case ModbusMessage_init copies headerType params is_srv s of
           Inl e \<Rightarrow> False
         | Inr (self, s1) \<Rightarrow>
             new_connection_class (params_objs s1 ! params) =
               Some (NewConnection headerType self) \<and>
             settings (params_objs s1 ! params) = settings (params_objs s ! params) \<and>
             (\<forall>i<length (params_objs s). i \<noteq> params \<longrightarrow> params_objs s1 ! i = params_objs s ! i) \<and>
             params_objs s1 ! comm_params (message_objs s1 ! self) = params_objs s1 ! params \<and>
             is_server (message_objs s1 ! self) = is_srv \<and>
             (\<forall>n. case call_times copies (NewConnection headerType self) n s1 of
                    Inl e \<Rightarrow> False
                  | Inr (cs, sn) \<Rightarrow>
                      length cs = n \<and>
                      (\<forall>c\<in>set cs. c \<noteq> self \<and> c < length (message_objs sn) \<and>
                         is_server (message_objs sn ! c) = False))"
proof -
  let ?p = "length (message_objs s)"
  let ?s1 = "s\<lparr>params_objs :=
               (let ps = (params_objs s)[params := (params_objs s ! params)
                           \<lparr>new_connection_class := Some (NewConnection headerType ?p)\<rparr>]
                in if copies then ps @ [ps ! params] else ps),
            message_objs := message_objs s @
               [\<lparr>comm_params = (if copies then length (params_objs s) else params),
                 is_server = is_srv, recv_buffer = [],
                 header = (case headerType of SOCKET \<Rightarrow> HeaderSocket ?p | TLS \<Rightarrow> HeaderTLS ?p
                   | RTU \<Rightarrow> HeaderRTU ?p | ASCII \<Rightarrow> HeaderASCII ?p | BINARY \<Rightarrow> HeaderBinary ?p)\<rparr>]\<rparr>"
  have init: "ModbusMessage_init copies headerType params is_srv s = Inr (?p, ?s1)"
    by (rule ModbusMessage_init_eq [OF assms])
  have p1: "?p < length (message_objs ?s1)" by simp
  have cp1: "comm_params (message_objs ?s1 ! ?p) < length (params_objs ?s1)"
    using assms by (simp add: Let_def)
  have a: "new_connection_class (params_objs ?s1 ! params) = Some (NewConnection headerType ?p)"
    using assms by (simp add: Let_def nth_append)
  have b: "settings (params_objs ?s1 ! params) = settings (params_objs s ! params)"
    using assms by (simp add: Let_def nth_append)
  have c: "\<forall>i<length (params_objs s). i \<noteq> params \<longrightarrow> params_objs ?s1 ! i = params_objs s ! i"
    by (simp add: Let_def nth_append)
  have d: "params_objs ?s1 ! comm_params (message_objs ?s1 ! ?p) = params_objs ?s1 ! params"
    using assms by (simp add: Let_def nth_append)
  have e: "is_server (message_objs ?s1 ! ?p) = is_srv" by simp
  have f: "case call_times copies (NewConnection headerType ?p) n ?s1 of
                    Inl e \<Rightarrow> False
                  | Inr (cs, sn) \<Rightarrow>
                      length cs = n \<and>
                      (\<forall>c\<in>set cs. c \<noteq> ?p \<and> c < length (message_objs sn) \<and>
                         is_server (message_objs sn ! c) = False)" for n
  proof -
    from call_times_general [OF p1 cp1, of copies headerType n]
    obtain sn where
      run: "call_times copies (NewConnection headerType ?p) n ?s1 =
              Inr ([length (message_objs ?s1) ..< length (message_objs ?s1) + n], sn)"
      and lenn: "length (message_objs sn) = length (message_objs ?s1) + n"
      and kids: "\<forall>c. length (message_objs ?s1) \<le> c \<and> c < length (message_objs ?s1) + n \<longrightarrow>
         header (message_objs sn ! c) =
           (case headerType of SOCKET \<Rightarrow> HeaderSocket c | TLS \<Rightarrow> HeaderTLS c | RTU \<Rightarrow> HeaderRTU c
            | ASCII \<Rightarrow> HeaderASCII c | BINARY \<Rightarrow> HeaderBinary c) \<and>
         \<not> is_server (message_objs sn ! c) \<and>
         recv_buffer (message_objs sn ! c) = [] \<and>
         comm_params (message_objs sn ! c) < length (params_objs sn) \<and>
         settings (params_objs sn ! comm_params (message_objs sn ! c)) =
           settings (params_objs ?s1 ! comm_params (message_objs ?s1 ! ?p))"
      by blast
    have "\<forall>c\<in>set [length (message_objs ?s1) ..< length (message_objs ?s1) + n].
            c \<noteq> ?p \<and> c < length (message_objs sn) \<and> is_server (message_objs sn ! c) = False"
      using kids lenn by auto
    with run show ?thesis by simp
  qed
  show ?thesis
    unfolding init using a b c d e f by simp
qed

theorem init_overwrites_factory_client_children_witness:
  "0 < length (params_objs example_store) \<and>
   (case ModbusMessage_init False BINARY 0 True example_store of
      Inl e \<Rightarrow> False
    | Inr (self, s1) \<Rightarrow>
        new_connection_class (params_objs s1 ! 0) = Some (NewConnection BINARY self) \<and>
        (case call_times False (NewConnection BINARY self) (Suc (Suc 0)) s1 of
           Inl e \<Rightarrow> False
         | Inr (cs, sn) \<Rightarrow>
             cs = [1, 2] \<and> map is_server (message_objs sn) = [True, False, False]))"
  using init_overwrites_factory_client_children
          [where params = 0 and s = example_store and copies = False and headerType = BINARY
             and is_srv = True]
  by (simp add: example_store_def ModbusMessage_init_eq Let_def)

text \<open>
  C8. For each of the five members of \<open>CommHeaderType\<close>, construction succeeds and binds
  \<open>header\<close> to an instance of the class of that member (SOCKET to \<open>HeaderSocket\<close>, TLS to
  \<open>HeaderTLS\<close>, RTU to \<open>HeaderRTU\<close>, ASCII to \<open>HeaderASCII\<close>, BINARY to \<open>HeaderBinary\<close>),
  whose \<open>message\<close> field is the constructed instance itself.
\<close>

theorem init_binds_matching_header:
  assumes "params < length (params_objs s)"
  shows "case ModbusMessage_init copies headerType params is_srv s of
           Inl e \<Rightarrow> False
         | Inr (self, s') \<Rightarrow>
             self = length (message_objs s) \<and>
             length (message_objs s') = Suc self \<and>
             header (message_objs s' ! self) =
               (case headerType of
                  SOCKET \<Rightarrow> HeaderSocket self
                | TLS \<Rightarrow> HeaderTLS self
                | RTU \<Rightarrow> HeaderRTU self
                | ASCII \<Rightarrow> HeaderASCII self
                | BINARY \<Rightarrow> HeaderBinary self) \<and>
             message (header (message_objs s' ! self)) = self"
  using assms by (cases headerType) (simp_all add: ModbusMessage_init_eq)

theorem init_binds_matching_header_witness:
  "0 < length (params_objs example_store) \<and>
   (case ModbusMessage_init True ASCII 0 True example_store of
      Inl e \<Rightarrow> False
    | Inr (self, s') \<Rightarrow>
        self = 0 \<and> header (message_objs s' ! self) = HeaderASCII 0 \<and>
        message (header (message_objs s' ! self)) = 0)"
  using init_binds_matching_header [where params = 0 and s = example_store and copies = True
          and headerType = ASCII and is_srv = True]
  by (simp add: example_store_def split: sum.splits prod.splits)

section \<open>Checksum\<close>

lemma lrc_neg: "lrc bs = - word_of_nat (sum_list (map unat bs))"
proof -
  have "(word_of_nat (sum_list (map unat bs) mod 256) :: byte) = word_of_nat (sum_list (map unat bs))"
    by (simp add: word_of_nat_eq_iff take_bit_eq_mod)
  then show ?thesis
    by (simp add: lrc_def minus_eq_not_plus_1)
qed

lemma unat_lrc: "unat (lrc bs) = (256 - sum_list (map unat bs) mod 256) mod 256"
proof -
  let ?n = "sum_list (map unat bs)"
  let ?w = "word_of_nat ?n :: byte"
  have u: "unat ?w = ?n mod 256"
    by (simp add: unat_of_nat)
  have "unat (- ?w) = unat (0 - ?w)" by simp
  also have "\<dots> = (if unat ?w \<le> 0 then 0 else 256 - unat ?w)"
    by (simp only: unat_sub_if_size) (simp add: word_size)
  also have "\<dots> = (256 - ?n mod 256) mod 256"
    unfolding u by simp
  finally show ?thesis by (simp add: lrc_neg)
qed

text \<open>
  C9. For every byte sequence, \<open>lrc\<close> is the 8-bit two's complement of the sum of the bytes
  modulo 256: as a number it is \<open>(256 - sum mod 256) mod 256\<close>, and the sum of the bytes plus
  \<open>lrc\<close> is congruent to 0 modulo 256 (as numbers, and as 8-bit values).
\<close>

theorem lrc_is_twos_complement_of_sum:
  "unat (lrc bs) = (256 - sum_list (map unat bs) mod 256) mod 256 \<and>
   (sum_list (map unat bs) + unat (lrc bs)) mod 256 = 0 \<and>
   word_of_nat (sum_list (map unat bs)) + lrc bs = 0"
proof -
  let ?n = "sum_list (map unat bs)"
  have a: "unat (lrc bs) = (256 - ?n mod 256) mod 256" by (rule unat_lrc)
  have "(?n + unat (lrc bs)) mod 256 = (?n mod 256 + (256 - ?n mod 256) mod 256) mod 256"
    unfolding a by (simp add: mod_add_left_eq)
  also have "\<dots> = 0"
  proof (cases "?n mod 256 = 0")
    case True then show ?thesis by simp
  next
    case False
    then have "(256 - ?n mod 256) mod 256 = 256 - ?n mod 256" by simp
    moreover have "?n mod 256 < 256" by simp
    ultimately show ?thesis by simp
  qed
  finally have b: "(?n + unat (lrc bs)) mod 256 = 0" .
  have c: "word_of_nat ?n + lrc bs = 0" by (simp add: lrc_neg)
  show ?thesis using a b c by simp
qed

section \<open>Termination of the Frame Assembler\<close>

lemma feed_loop_returns:
  assumes consumed: "\<forall>b m n. try_decode b = Complete m n \<longrightarrow> take n b \<noteq> []"
    and shrinks: "\<forall>b r point. try_decode b = Invalid r \<and> resync b = Some point \<longrightarrow>
                    length (drop (Suc point) b) < length b"
  shows "\<exists>out rest c. feed_loop try_decode resync buffer emitted = Some (emitted @ out, rest, c) \<and>
           length out + length rest \<le> length buffer"
proof (induction "length buffer" arbitrary: buffer emitted rule: less_induct)
  case less
  show ?case
  proof (cases "try_decode buffer")
    case (Complete m n)
    with consumed have ne: "take n buffer \<noteq> []" by blast
    then have lt: "length (drop n buffer) < length buffer" by (cases buffer; cases n) simp_all
    from less [OF lt, of "emitted @ [m]"]
    obtain out rest c where
      r: "feed_loop try_decode resync (drop n buffer) (emitted @ [m]) = Some ((emitted @ [m]) @ out, rest, c)"
      and b: "length out + length rest \<le> length (drop n buffer)"
      by blast
    have "feed_loop try_decode resync buffer emitted = Some (emitted @ (m # out), rest, c)"
      by (subst feed_loop.simps) (simp add: Complete r)
    moreover have "length (m # out) + length rest \<le> length buffer"
      using b lt by simp
    ultimately show ?thesis by blast
  next
    case Incomplete
    have "feed_loop try_decode resync buffer emitted = Some (emitted @ [], buffer, Open)"
      by (subst feed_loop.simps) (simp add: Incomplete)
    then show ?thesis by fastforce
  next
    case (Invalid r)
    show ?thesis
    proof (cases "resync buffer")
      case None
      have "feed_loop try_decode resync buffer emitted = Some (emitted @ [], buffer, MustClose r)"
        by (subst feed_loop.simps) (simp add: Invalid None)
      then show ?thesis by fastforce
    next
      case (Some point)
      with Invalid shrinks have lt: "length (drop (Suc point) buffer) < length buffer" by blast
      from less [OF lt, of emitted]
      obtain out rest c where
        r: "feed_loop try_decode resync (drop (Suc point) buffer) emitted = Some (emitted @ out, rest, c)"
        and b: "length out + length rest \<le> length (drop (Suc point) buffer)"
        by blast
      have "feed_loop try_decode resync buffer emitted = Some (emitted @ out, rest, c)"
        by (subst feed_loop.simps) (simp add: Invalid Some r)
      moreover have "length out + length rest \<le> length buffer"
        using b lt by simp
      ultimately show ?thesis by blast
    qed
  qed
qed

text \<open>
  C10. For every buffer and every delivery of new bytes, \<open>feed\<close> returns: provided each
  \<open>Complete\<close> outcome consumes a non-empty prefix of the buffer and each resynchronization
  after \<open>Invalid\<close> strictly shrinks the buffer, the loop ends with a result, and the messages
  emitted and the bytes kept together number no more than the bytes of the buffer and the
  delivery.
\<close>

theorem feed_returns:
  assumes "\<forall>b m n. try_decode b = Complete m n \<longrightarrow> take n b \<noteq> []"
    and "\<forall>b r point. try_decode b = Invalid r \<and> resync b = Some point \<longrightarrow>
           length (drop (Suc point) b) < length b"
  shows "\<exists>out rest c. feed try_decode resync buffer new_bytes = Some (out, rest, c) \<and>
           length out + length rest \<le> length buffer + length new_bytes"
  using feed_loop_returns [OF assms, of "buffer @ new_bytes" "[]"]
  by (simp add: feed_def)

lemma index_of_nonempty: "index_of c bs = Some i \<Longrightarrow> bs \<noteq> []"
  by (cases bs) simp_all

lemma ascii_consumed: "ascii_try_decode b = Complete m n \<Longrightarrow> take n b \<noteq> []"
  by (auto simp: ascii_try_decode_def dest: index_of_nonempty split: option.splits if_splits)

lemma ascii_shrinks:
  "ascii_try_decode b = Invalid r \<Longrightarrow> length (drop (Suc point) b) < length b"
  by (auto simp: ascii_try_decode_def dest: index_of_nonempty split: option.splits if_splits)

theorem feed_returns_witness:
  "ascii_try_decode ascii_frame =
     Complete \<lparr>unit_id = 1, function_code = 3, data = [0, 0, 0, 2], transaction_id = None\<rparr> 17 \<and>
   take 17 ascii_frame \<noteq> [] \<and>
   ascii_try_decode (ascii_frame_corrupted @ ascii_frame) = Invalid ChecksumError \<and>
   ascii_resync (ascii_frame_corrupted @ ascii_frame) = Some 16 \<and>
   length (drop (Suc 16) (ascii_frame_corrupted @ ascii_frame)) <
     length (ascii_frame_corrupted @ ascii_frame) \<and>
   (\<exists>out rest c.
      feed ascii_try_decode ascii_resync [7, 7] (ascii_frame_corrupted @ ascii_frame) =
        Some (out, rest, c) \<and>
      length out + length rest \<le>
        length [7, 7 :: byte] + length (ascii_frame_corrupted @ ascii_frame))"
proof -
  have h1: "\<forall>b m n. ascii_try_decode b = Complete m n \<longrightarrow> take n b \<noteq> []"
    using ascii_consumed by blast
  have h2: "\<forall>b r point. ascii_try_decode b = Invalid r \<and> ascii_resync b = Some point \<longrightarrow>
           length (drop (Suc point) b) < length b"
    using ascii_shrinks by blast
  have ok: "ascii_try_decode ascii_frame =
     Complete \<lparr>unit_id = 1, function_code = 3, data = [0, 0, 0, 2], transaction_id = None\<rparr> 17"
    by (simp add: ascii_try_decode_def ascii_frame_def hex_value_def lrc_def Let_def)
  have bad: "ascii_try_decode (ascii_frame_corrupted @ ascii_frame) = Invalid ChecksumError"
    by (simp add: ascii_try_decode_def ascii_frame_def ascii_frame_corrupted_def hex_value_def
        lrc_def Let_def)
  have point: "ascii_resync (ascii_frame_corrupted @ ascii_frame) = Some 16"
    by (simp add: ascii_resync_def ascii_frame_def ascii_frame_corrupted_def)
  have prefix: "take 17 ascii_frame \<noteq> []"
    using h1 ok by blast
  have shrink: "length (drop (Suc 16) (ascii_frame_corrupted @ ascii_frame)) <
     length (ascii_frame_corrupted @ ascii_frame)"
    using h2 bad point by blast
  from feed_returns [OF h1 h2, of "[7, 7]" "ascii_frame_corrupted @ ascii_frame"]
  show ?thesis using ok bad point prefix shrink by blast
qed

end
